theory Spec2Isabelle
  imports Complex_Main "HOL-Library.Word" "HOL-Library.AList" "HOL-Library.Multiset"
    "HOL-Library.Log_Nat"
begin

section \<open>The hash function: SHA-256 truncated to 32 bits\<close>

text \<open>
  \<^verbatim>\<open>HashRing.hash\<close> feeds the key to \<^verbatim>\<open>crypto/sha256\<close> and reads the first four bytes
  of the digest as a big-endian \<^verbatim>\<open>uint32\<close>. The digest is modelled after FIPS 180-4.
  A 32-bit word of the digest computation is the list of its 32 bits, least significant
  bit first, so that every step of the compression function is a structural recursion
  that the kernel evaluates quickly; bytes and constants are integers.
\<close>

type_synonym bits = "bool list"

fun to_bits :: "nat \<Rightarrow> int \<Rightarrow> bits" where
  "to_bits 0 n = []"
| "to_bits (Suc w) n = odd n # to_bits w (n div 2)"

fun of_bits :: "bits \<Rightarrow> int" where
  "of_bits [] = 0"
| "of_bits (b # bs) = (if b then 1 else 0) + 2 * of_bits bs"

text \<open>
  The sixty-four round constants of FIPS 180-4, section 4.2.2, written in decimal
  (the first is \<open>0x428a2f98\<close>, the last \<open>0xc67178f2\<close>).
\<close>

definition K256 :: "int list" where
  "K256 =
    [1116352408, 1899447441, 3049323471, 3921009573, 961987163, 1508970993,
     2453635748, 2870763221, 3624381080, 310598401, 607225278, 1426881987,
     1925078388, 2162078206, 2614888103, 3248222580, 3835390401, 4022224774,
     264347078, 604807628, 770255983, 1249150122, 1555081692, 1996064986,
     2554220882, 2821834349, 2952996808, 3210313671, 3336571891, 3584528711,
     113926993, 338241895, 666307205, 773529912, 1294757372, 1396182291,
     1695183700, 1986661051, 2177026350, 2456956037, 2730485921, 2820302411,
     3259730800, 3345764771, 3516065817, 3600352804, 4094571909, 275423344,
     430227734, 506948616, 659060556, 883997877, 958139571, 1322822218,
     1537002063, 1747873779, 1955562222, 2024104815, 2227730452, 2361852424,
     2428436474, 2756734187, 3204031479, 3329325298]"

definition H256 :: "int list" where
  "H256 = [0x6a09e667, 0xbb67ae85, 0x3c6ef372, 0xa54ff53a,
           0x510e527f, 0x9b05688c, 0x1f83d9ab, 0x5be0cd19]"

text \<open>Addition modulo \<open>2^32\<close>: a ripple-carry adder that drops the last carry.\<close>

fun addc :: "bool \<Rightarrow> bits \<Rightarrow> bits \<Rightarrow> bits" where
  "addc c (x # xs) (y # ys) = ((x \<noteq> y) \<noteq> c) # addc ((x \<and> y) \<or> (c \<and> (x \<noteq> y))) xs ys"
| "addc c _ _ = []"

definition add32 :: "bits \<Rightarrow> bits \<Rightarrow> bits" where
  "add32 x y = addc False x y"

definition xor32 :: "bits \<Rightarrow> bits \<Rightarrow> bits" where
  "xor32 x y = map2 (\<noteq>) x y"

definition and32 :: "bits \<Rightarrow> bits \<Rightarrow> bits" where
  "and32 x y = map2 (\<and>) x y"

definition not32 :: "bits \<Rightarrow> bits" where
  "not32 x = map Not x"

definition rotr :: "nat \<Rightarrow> bits \<Rightarrow> bits" where
  "rotr n x = drop n x @ take n x"

definition shr :: "nat \<Rightarrow> bits \<Rightarrow> bits" where
  "shr n x = drop n x @ replicate n False"

definition Sigma0 :: "bits \<Rightarrow> bits" where
  "Sigma0 x = xor32 (xor32 (rotr 2 x) (rotr 13 x)) (rotr 22 x)"

definition Sigma1 :: "bits \<Rightarrow> bits" where
  "Sigma1 x = xor32 (xor32 (rotr 6 x) (rotr 11 x)) (rotr 25 x)"

definition sigma0 :: "bits \<Rightarrow> bits" where
  "sigma0 x = xor32 (xor32 (rotr 7 x) (rotr 18 x)) (shr 3 x)"

definition sigma1 :: "bits \<Rightarrow> bits" where
  "sigma1 x = xor32 (xor32 (rotr 17 x) (rotr 19 x)) (shr 10 x)"

definition Ch :: "bits \<Rightarrow> bits \<Rightarrow> bits \<Rightarrow> bits" where
  "Ch x y z = xor32 (and32 x y) (and32 (not32 x) z)"

definition Maj :: "bits \<Rightarrow> bits \<Rightarrow> bits \<Rightarrow> bits" where
  "Maj x y z = xor32 (xor32 (and32 x y) (and32 x z)) (and32 y z)"

definition T1 :: "bits \<Rightarrow> bits \<Rightarrow> bits \<Rightarrow> bits \<Rightarrow> bits \<Rightarrow> bits \<Rightarrow> bits" where
  "T1 e f g h k w = add32 (add32 (add32 (add32 h (Sigma1 e)) (Ch e f g)) k) w"

definition T2 :: "bits \<Rightarrow> bits \<Rightarrow> bits \<Rightarrow> bits" where
  "T2 a b c = add32 (Sigma0 a) (Maj a b c)"

text \<open>One round on the working variables \<open>[a, b, c, d, e, f, g, h]\<close>.\<close>

definition shuffle :: "bits \<Rightarrow> bits \<Rightarrow> bits list \<Rightarrow> bits list" where
  "shuffle t1 t2 st =
     [add32 t1 t2, st ! 0, st ! 1, st ! 2, add32 (st ! 3) t1, st ! 4, st ! 5, st ! 6]"

definition round256 :: "bits \<Rightarrow> bits \<Rightarrow> bits list \<Rightarrow> bits list" where
  "round256 k w st =
     shuffle (T1 (st ! 4) (st ! 5) (st ! 6) (st ! 7) k w) (T2 (st ! 0) (st ! 1) (st ! 2)) st"

text \<open>
  The message schedule is kept as a window of the last sixteen words:
  \<open>W\<^sub>t = \<sigma>\<^sub>1(W\<^sub>t\<^sub>-\<^sub>2) + W\<^sub>t\<^sub>-\<^sub>7 + \<sigma>\<^sub>0(W\<^sub>t\<^sub>-\<^sub>1\<^sub>5) + W\<^sub>t\<^sub>-\<^sub>1\<^sub>6\<close>.
\<close>

definition next_w :: "bits list \<Rightarrow> bits list" where
  "next_w ws =
     tl ws @ [add32 (add32 (add32 (sigma1 (ws ! 14)) (ws ! 9)) (sigma0 (ws ! 1))) (ws ! 0)]"

fun rounds :: "int list \<Rightarrow> bits list \<Rightarrow> bits list \<Rightarrow> bits list" where
  "rounds [] ws st = st"
| "rounds (k # ks) ws st = rounds ks (next_w ws) (round256 (to_bits 32 k) (hd ws) st)"

fun be32 :: "int list \<Rightarrow> bits list" where
  "be32 (a # b # c # d # bs) =
     (to_bits 8 d @ to_bits 8 c @ to_bits 8 b @ to_bits 8 a) # be32 bs"
| "be32 _ = []"

definition compress :: "bits list \<Rightarrow> int list \<Rightarrow> bits list" where
  "compress hs blk = map2 add32 hs (rounds K256 (be32 blk) hs)"

fun blocks :: "bits list \<Rightarrow> int list \<Rightarrow> bits list" where
  "blocks hs (b # bs) = blocks (compress hs (take 64 (b # bs))) (drop 64 (b # bs))"
| "blocks hs [] = hs"

text \<open>Padding: the byte \<open>0x80\<close>, zeros up to 56 modulo 64, the bit length in 8 bytes.\<close>

definition pad :: "int list \<Rightarrow> int list" where
  "pad m = (let l = int (length m) in
     m @ [0x80] @ replicate (nat ((55 - l) mod 64)) 0 @
     map (\<lambda>i. (8 * l) div 256 ^ i mod 256) [7, 6, 5, 4, 3, 2, 1, 0])"

definition sha256 :: "int list \<Rightarrow> bits list" where
  "sha256 m = blocks (map (to_bits 32) H256) (pad m)"

type_synonym uint32 = "32 word"

text \<open>\<^verbatim>\<open>binary.BigEndian.Uint32(hashBytes[:4])\<close> is the first word of the digest.\<close>

definition hash :: "string \<Rightarrow> uint32" where
  "hash key = word_of_int (of_bits (hd (sha256 (map of_char key))))"


section \<open>Numbers\<close>

text \<open>
  A \<^verbatim>\<open>float64\<close> is a finite value, an infinity or NaN. A finite value is the rational
  number it denotes; the sign of a zero is not kept, since the ring only compares, adds,
  multiplies and converts, and divides by a node count that is at least one. Every
  arithmetic result is rounded to the nearest binary64 value, ties to the even
  significand, as IEEE 754 prescribes and Go's \<^verbatim>\<open>float64\<close> does.
\<close>

datatype float64 = F64 rat | PosInf | NegInf | NaN

definition pow2 :: "int \<Rightarrow> rat" where
  "pow2 k = (if k \<ge> 0 then 2 ^ nat k else 1 / 2 ^ nat (- k))"

text \<open>For \<open>a > 0\<close>, the exponent \<open>e\<close> with \<open>2\<^sup>e \<le> a < 2\<^sup>e\<^sup>+\<^sup>1\<close>.\<close>

definition ilog2 :: "rat \<Rightarrow> int" where
  "ilog2 a = (let d = bitlen (fst (quotient_of a)) - bitlen (snd (quotient_of a))
              in if a < pow2 d then d - 1 else d)"

definition round_even :: "rat \<Rightarrow> int" where
  "round_even q =
     (let f = \<lfloor>q\<rfloor>; d = q - of_int f
      in if d < 1 / 2 then f else if d > 1 / 2 then f + 1 else if even f then f else f + 1)"

text \<open>
  A binary64 value has 53 significant bits and an exponent of at least \<open>-1022\<close>; a result
  that rounds to \<open>2\<^sup>1\<^sup>0\<^sup>2\<^sup>4\<close> or more in magnitude is an infinity.
\<close>

definition round64 :: "rat \<Rightarrow> float64" where
  "round64 x =
     (if x = 0 then F64 0
      else (let a = \<bar>x\<bar>;
                e = max (ilog2 a) (- 1022);
                u = pow2 (e - 52);
                r = of_int (round_even (a / u)) * u
            in if r \<ge> pow2 1024 then (if x > 0 then PosInf else NegInf)
               else F64 (if x > 0 then r else - r)))"

fun f64_add :: "float64 \<Rightarrow> float64 \<Rightarrow> float64" where
  "f64_add (F64 a) (F64 b) = round64 (a + b)"
| "f64_add NaN y = NaN"
| "f64_add x NaN = NaN"
| "f64_add PosInf NegInf = NaN"
| "f64_add NegInf PosInf = NaN"
| "f64_add PosInf y = PosInf"
| "f64_add NegInf y = NegInf"
| "f64_add (F64 a) y = y"

text \<open>The sign of a value: \<open>1\<close>, \<open>-1\<close>, or \<open>0\<close> for a zero.\<close>

fun f64_sgn :: "float64 \<Rightarrow> int" where
  "f64_sgn (F64 a) = (if a > 0 then 1 else if a < 0 then - 1 else 0)"
| "f64_sgn PosInf = 1"
| "f64_sgn NegInf = - 1"
| "f64_sgn NaN = 0"

definition inf_of_sgn :: "int \<Rightarrow> float64" where
  "inf_of_sgn s = (if s = 0 then NaN else if s > 0 then PosInf else NegInf)"

fun f64_mul :: "float64 \<Rightarrow> float64 \<Rightarrow> float64" where
  "f64_mul (F64 a) (F64 b) = round64 (a * b)"
| "f64_mul NaN y = NaN"
| "f64_mul x NaN = NaN"
| "f64_mul x y = inf_of_sgn (f64_sgn x * f64_sgn y)"

text \<open>Division by a zero is taken at the positive zero.\<close>

fun f64_div :: "float64 \<Rightarrow> float64 \<Rightarrow> float64" where
  "f64_div (F64 a) (F64 b) = (if b = 0 then inf_of_sgn (f64_sgn (F64 a)) else round64 (a / b))"
| "f64_div NaN y = NaN"
| "f64_div x NaN = NaN"
| "f64_div (F64 a) y = F64 0"
| "f64_div x (F64 b) = inf_of_sgn (f64_sgn x * (if b < 0 then - 1 else 1))"
| "f64_div x y = NaN"

text \<open>The comparisons \<^verbatim>\<open><=\<close> and \<^verbatim>\<open><\<close>: false whenever an operand is NaN.\<close>

fun f64_le :: "float64 \<Rightarrow> float64 \<Rightarrow> bool" where
  "f64_le (F64 a) (F64 b) = (a \<le> b)"
| "f64_le NaN y = False"
| "f64_le x NaN = False"
| "f64_le NegInf y = True"
| "f64_le x PosInf = True"
| "f64_le x y = False"

fun f64_lt :: "float64 \<Rightarrow> float64 \<Rightarrow> bool" where
  "f64_lt (F64 a) (F64 b) = (a < b)"
| "f64_lt NaN y = False"
| "f64_lt x NaN = False"
| "f64_lt PosInf y = False"
| "f64_lt x NegInf = False"
| "f64_lt x y = True"

text \<open>
  Go's \<^verbatim>\<open>int\<close> is the 64-bit signed integer. It is modelled by \<^typ>\<open>int\<close>, and
  \<open>int64\<close> wraps a result into the range where an exported method can be made to leave
  it: \<^verbatim>\<open>IncrementLoad\<close> on a node whose load the caller has set. The private counter
  \<^verbatim>\<open>totalKeys\<close> starts at zero and moves by one key or by the load of one node per call.
\<close>

definition int64 :: "int \<Rightarrow> int" where
  "int64 x = (x + 2 ^ 63) mod 2 ^ 64 - 2 ^ 63"

text \<open>\<^verbatim>\<open>float64(i)\<close> rounds the integer to the nearest binary64 value.\<close>

definition f64_of_int :: "int \<Rightarrow> float64" where
  "f64_of_int i = round64 (of_int i)"

text \<open>
  The conversion \<^verbatim>\<open>int(x)\<close> truncates towards zero. For a NaN, an infinity or a value
  outside the range of \<^verbatim>\<open>int\<close> the Go specification leaves the result to the
  implementation; the model gives the result of the amd64 compiler, the least
  \<^verbatim>\<open>int64\<close>.
\<close>

definition toward_zero :: "rat \<Rightarrow> int" where
  "toward_zero x = (if x \<ge> 0 then \<lfloor>x\<rfloor> else \<lceil>x\<rceil>)"

fun f64_to_int :: "float64 \<Rightarrow> int" where
  "f64_to_int (F64 r) =
     (if - (2 ^ 63) \<le> toward_zero r \<and> toward_zero r < 2 ^ 63 then toward_zero r else - (2 ^ 63))"
| "f64_to_int x = - (2 ^ 63)"

section \<open>Nodes\<close>

record Node =
  ID :: string
  Host :: string
  Load :: int
  MaxLoad :: int
  Metadata :: "(string \<times> string) list"

definition NewNode :: "string \<Rightarrow> string \<Rightarrow> Node" where
  "NewNode nid host = \<lparr>ID = nid, Host = host, Load = 0, MaxLoad = 0, Metadata = []\<rparr>"

definition CanAcceptKey :: "Node \<Rightarrow> bool" where
  "CanAcceptKey n = (if MaxLoad n = 0 then True else Load n < MaxLoad n)"

definition IncrementLoad :: "Node \<Rightarrow> Node" where
  "IncrementLoad n = n\<lparr>Load := int64 (Load n + 1)\<rparr>"

definition DecrementLoad :: "Node \<Rightarrow> Node" where
  "DecrementLoad n = (if Load n > 0 then n\<lparr>Load := Load n - 1\<rparr> else n)"

definition ResetLoad :: "Node \<Rightarrow> Node" where
  "ResetLoad n = n\<lparr>Load := 0\<rparr>"

section \<open>The hash ring\<close>

text \<open>
  The three Go maps are association lists read with \<^const>\<open>map_of\<close> and written with
  \<^const>\<open>AList.update\<close> and \<^const>\<open>AList.delete\<close>, so that the \<^verbatim>\<open>range\<close> loops
  of the source can run over them. The map \<^verbatim>\<open>nodes\<close> holds pointers; a node that is
  mutated through its pointer is written back under its key. The mutex is not modelled:
  every operation is one atomic step on the ring.
\<close>

record HashRing =
  nodes :: "(string \<times> Node) list"
  ring :: "uint32 list"
  ringMap :: "(uint32 \<times> string) list"
  virtualNodes :: int
  totalKeys :: int
  loadFactor :: float64
  keyAssignment :: "(string \<times> string) list"

record Config =
  VirtualNodes :: int
  LoadFactor :: float64

definition DefaultConfig :: Config where
  "DefaultConfig = \<lparr>VirtualNodes = 150, LoadFactor = F64 (5 / 4)\<rparr>"

definition NewHashRing :: "Config \<Rightarrow> HashRing" where
  "NewHashRing config =
     (let c1 = (if VirtualNodes config \<le> 0 then config\<lparr>VirtualNodes := 150\<rparr> else config);
          c2 = (if f64_le (LoadFactor c1) (F64 0) then c1\<lparr>LoadFactor := F64 (5 / 4)\<rparr>
                else c1)
      in \<lparr>nodes = [], ring = [], ringMap = [], virtualNodes = VirtualNodes c2,
          totalKeys = 0, loadFactor = LoadFactor c2, keyAssignment = []\<rparr>)"

text \<open>
  The errors are the four \<^verbatim>\<open>fmt.Errorf\<close> messages of the source. A run-time panic
  (an index out of range, a method called on a nil \<^verbatim>\<open>*Node\<close>) is the result \<open>None\<close> of
  an operation.
\<close>

datatype error =
    NodeAlreadyExists string
  | NodeNotFound string
  | NoNodesAvailable
  | KeyNotFound string

text \<open>Reading a Go map of strings at a missing key gives the empty string.\<close>

definition lookupID :: "(uint32 \<times> string) list \<Rightarrow> uint32 \<Rightarrow> string" where
  "lookupID m k = (case map_of m k of None \<Rightarrow> [] | Some v \<Rightarrow> v)"

subsection \<open>Virtual keys\<close>

text \<open>\<^verbatim>\<open>fmt.Sprintf("%s#%d", node.ID, i)\<close> for a loop index \<open>i \<ge> 0\<close>.\<close>

definition digit :: "nat \<Rightarrow> char" where
  "digit d = char_of (of_char CHR ''0'' + d)"

function itoa :: "nat \<Rightarrow> string" where
  "itoa n = (if n < 10 then [digit n] else itoa (n div 10) @ [digit (n mod 10)])"
  by pat_completeness auto
termination
  by (relation "measure id") auto

declare itoa.simps [simp del]

definition virtualKey :: "string \<Rightarrow> nat \<Rightarrow> string" where
  "virtualKey nid i = nid @ ''#'' @ itoa i"

subsection \<open>Lookup\<close>

text \<open>
  \<^verbatim>\<open>sort.Search(n, f)\<close> of the Go library: the binary search
  \<^verbatim>\<open>i, j := 0, n; for i < j { h := int(uint(i+j) >> 1); if !f(h) { i = h + 1 } else { j = h } }; return i\<close>.
\<close>

function sortSearch :: "(nat \<Rightarrow> bool) \<Rightarrow> nat \<Rightarrow> nat \<Rightarrow> nat" where
  "sortSearch f i j =
     (if i < j
      then (let h = (i + j) div 2 in if \<not> f h then sortSearch f (h + 1) j else sortSearch f i h)
      else i)"
  by pat_completeness auto
termination
  by (relation "measure (\<lambda>(f, i, j). j - i)") auto

declare sortSearch.simps [simp del]

definition search :: "HashRing \<Rightarrow> uint32 \<Rightarrow> nat" where
  "search h hashVal =
     (let idx = sortSearch (\<lambda>i. ring h ! i \<ge> hashVal) 0 (length (ring h))
      in if idx \<ge> length (ring h) then 0 else idx)"

text \<open>
  \<^verbatim>\<open>getNodeForHash\<close> indexes the ring, which panics on an empty ring (outer \<open>None\<close>),
  and returns the pointer found in \<^verbatim>\<open>nodes\<close>, which is nil when the identifier is
  not a key of the map (inner \<open>None\<close>).
\<close>

definition getNodeForHash :: "HashRing \<Rightarrow> uint32 \<Rightarrow> Node option option" where
  "getNodeForHash h hashVal =
     (let idx = search h hashVal
      in if idx < length (ring h)
         then Some (map_of (nodes h) (lookupID (ringMap h) (ring h ! idx)))
         else None)"

definition GetNode :: "HashRing \<Rightarrow> string \<Rightarrow> (error + Node option) option" where
  "GetNode h key =
     (if length (nodes h) = 0 then Some (Inl NoNodesAvailable)
      else map_option Inr (getNodeForHash h (hash key)))"

subsection \<open>Load tracking\<close>

definition setMaxLoad :: "int \<Rightarrow> string \<times> Node \<Rightarrow> string \<times> Node" where
  "setMaxLoad m e = (fst e, (snd e)\<lparr>MaxLoad := m\<rparr>)"

definition updateMaxLoads :: "HashRing \<Rightarrow> HashRing" where
  "updateMaxLoads h =
     (if length (nodes h) = 0 then h
      else (let avgLoad = f64_div (f64_of_int (totalKeys h)) (f64_of_int (int (length (nodes h))));
                maxLoad = f64_to_int (f64_add (f64_mul avgLoad (loadFactor h)) (F64 (1 / 2)));
                maxLoad = (if maxLoad = 0 then 1 else maxLoad)
            in h\<lparr>nodes := map (setMaxLoad maxLoad) (nodes h)\<rparr>))"

text \<open>
  What \<^verbatim>\<open>updateMaxLoads\<close> computes on a ring without keys: one for a finite load
  factor, and the conversion of NaN otherwise (zero times an infinity is NaN).
\<close>

definition first_MaxLoad :: "float64 \<Rightarrow> int" where
  "first_MaxLoad lf = (case lf of F64 b \<Rightarrow> 1 | _ \<Rightarrow> - (2 ^ 63))"

definition resetLoad :: "string \<times> Node \<Rightarrow> string \<times> Node" where
  "resetLoad e = (fst e, ResetLoad (snd e))"

text \<open>
  The loop of \<^verbatim>\<open>rebalanceKeys\<close> over the keys of \<^verbatim>\<open>keyAssignment\<close>. Each key is
  looked up with \<^verbatim>\<open>getNodeForHash\<close>; reading \<^verbatim>\<open>.ID\<close> of a nil result and
  incrementing a node that is missing from \<^verbatim>\<open>nodes\<close> panic.
\<close>

fun rebalanceLoop ::
  "string list \<Rightarrow> HashRing \<Rightarrow> (string \<times> string) list \<Rightarrow> (HashRing \<times> (string \<times> string) list) option"
where
  "rebalanceLoop [] h newAssignment = Some (h, newAssignment)"
| "rebalanceLoop (key # keys) h newAssignment =
     (case getNodeForHash h (hash key) of
        None \<Rightarrow> None
      | Some None \<Rightarrow> None
      | Some (Some found) \<Rightarrow>
          (case map_of (nodes h) (ID found) of
             None \<Rightarrow> None
           | Some node \<Rightarrow>
               rebalanceLoop keys
                 (h\<lparr>nodes := AList.update (ID found) (IncrementLoad node) (nodes h)\<rparr>)
                 (AList.update key (ID found) newAssignment)))"

definition rebalanceKeys :: "HashRing \<Rightarrow> HashRing option" where
  "rebalanceKeys h =
     (case rebalanceLoop (map fst (keyAssignment h)) (h\<lparr>nodes := map resetLoad (nodes h)\<rparr>) [] of
        None \<Rightarrow> None
      | Some (h', newAssignment) \<Rightarrow> Some (h'\<lparr>keyAssignment := newAssignment\<rparr>))"

subsection \<open>Membership\<close>

fun addVirtualNodes :: "string \<Rightarrow> nat list \<Rightarrow> HashRing \<Rightarrow> HashRing" where
  "addVirtualNodes nid [] h = h"
| "addVirtualNodes nid (i # is) h =
     addVirtualNodes nid is
       (h\<lparr>ring := ring h @ [hash (virtualKey nid i)],
          ringMap := AList.update (hash (virtualKey nid i)) nid (ringMap h)\<rparr>)"

definition AddNode :: "HashRing \<Rightarrow> Node \<Rightarrow> (error option \<times> HashRing) option" where
  "AddNode h node =
     (if map_of (nodes h) (ID node) \<noteq> None then Some (Some (NodeAlreadyExists (ID node)), h)
      else (let h1 = h\<lparr>nodes := AList.update (ID node) node (nodes h)\<rparr>;
                h2 = addVirtualNodes (ID node) [0..<nat (virtualNodes h1)] h1;
                h3 = h2\<lparr>ring := sort (ring h2)\<rparr>;
                h4 = updateMaxLoads h3
            in map_option (Pair None) (rebalanceKeys h4)))"

text \<open>
  The loop of \<^verbatim>\<open>RemoveNode\<close> over the old ring: it reads \<^verbatim>\<open>ringMap\<close> while deleting
  from it.
\<close>

fun removeVirtualNodes ::
  "string \<Rightarrow> uint32 list \<Rightarrow> uint32 list \<Rightarrow> (uint32 \<times> string) list
     \<Rightarrow> uint32 list \<times> (uint32 \<times> string) list"
where
  "removeVirtualNodes nodeID [] newRing rm = (newRing, rm)"
| "removeVirtualNodes nodeID (hashVal # rest) newRing rm =
     (if lookupID rm hashVal \<noteq> nodeID
      then removeVirtualNodes nodeID rest (newRing @ [hashVal]) rm
      else removeVirtualNodes nodeID rest newRing (AList.delete hashVal rm))"

definition RemoveNode :: "HashRing \<Rightarrow> string \<Rightarrow> (error option \<times> HashRing) option" where
  "RemoveNode h nodeID =
     (case map_of (nodes h) nodeID of
        None \<Rightarrow> Some (Some (NodeNotFound nodeID), h)
      | Some node \<Rightarrow>
          (let (newRing, rm) = removeVirtualNodes nodeID (ring h) [] (ringMap h);
               h1 = h\<lparr>ring := newRing, ringMap := rm\<rparr>;
               h2 = h1\<lparr>totalKeys := totalKeys h1 - Load node\<rparr>;
               h3 = h2\<lparr>nodes := AList.delete nodeID (nodes h2)\<rparr>;
               h4 = updateMaxLoads h3
           in map_option (Pair None) (rebalanceKeys h4)))"

subsection \<open>Bounded-load assignment\<close>

definition assignTo :: "HashRing \<Rightarrow> string \<Rightarrow> string \<Rightarrow> Node \<Rightarrow> (error + Node) \<times> HashRing" where
  "assignTo h key nodeID node =
     (Inr (IncrementLoad node),
      h\<lparr>nodes := AList.update nodeID (IncrementLoad node) (nodes h),
        keyAssignment := AList.update key nodeID (keyAssignment h),
        totalKeys := totalKeys h + 1\<rparr>)"

text \<open>
  The walk \<^verbatim>\<open>for i := 0; i < ringLen; i++\<close>: the first node on the ring from
  \<open>startIdx\<close> on that accepts the key, if any. Calling \<^verbatim>\<open>CanAcceptKey\<close> on a nil
  pointer panics.
\<close>

datatype walk = WalkPanic | WalkNone | WalkFound string Node

fun walkRing :: "HashRing \<Rightarrow> nat \<Rightarrow> nat list \<Rightarrow> walk" where
  "walkRing h startIdx [] = WalkNone"
| "walkRing h startIdx (i # is) =
     (let idx = (startIdx + i) mod length (ring h);
          nodeID = lookupID (ringMap h) (ring h ! idx)
      in case map_of (nodes h) nodeID of
           None \<Rightarrow> WalkPanic
         | Some node \<Rightarrow>
             if CanAcceptKey node then WalkFound nodeID node else walkRing h startIdx is)"

definition GetNodeWithBoundedLoad ::
  "HashRing \<Rightarrow> string \<Rightarrow> ((error + Node) \<times> HashRing) option"
where
  "GetNodeWithBoundedLoad h key =
     (if length (nodes h) = 0 then Some (Inl NoNodesAvailable, h)
      else (let hashVal = hash key;
                startIdx = search h hashVal;
                existing = (case map_of (keyAssignment h) key of
                              None \<Rightarrow> None
                            | Some existingNodeID \<Rightarrow> map_of (nodes h) existingNodeID)
            in case existing of
                 Some node \<Rightarrow> Some (Inr node, h)
               | None \<Rightarrow>
                   (let h1 = h\<lparr>keyAssignment := AList.delete key (keyAssignment h)\<rparr>
                    in case walkRing h1 startIdx [0..<length (ring h1)] of
                         WalkPanic \<Rightarrow> None
                       | WalkFound nodeID node \<Rightarrow> Some (assignTo h1 key nodeID node)
                       | WalkNone \<Rightarrow>
                           (if startIdx < length (ring h1)
                            then (let nodeID = lookupID (ringMap h1) (ring h1 ! startIdx)
                                  in case map_of (nodes h1) nodeID of
                                       None \<Rightarrow> None
                                     | Some node \<Rightarrow> Some (assignTo h1 key nodeID node))
                            else None))))"

definition RemoveKey :: "HashRing \<Rightarrow> string \<Rightarrow> error option \<times> HashRing" where
  "RemoveKey h key =
     (case map_of (keyAssignment h) key of
        None \<Rightarrow> (Some (KeyNotFound key), h)
      | Some nodeID \<Rightarrow>
          (let h1 = (case map_of (nodes h) nodeID of
                       Some node \<Rightarrow> h\<lparr>nodes := AList.update nodeID (DecrementLoad node) (nodes h)\<rparr>
                     | None \<Rightarrow> h)
           in (None, h1\<lparr>keyAssignment := AList.delete key (keyAssignment h1),
                        totalKeys := totalKeys h1 - 1\<rparr>)))"

subsection \<open>Observers\<close>

definition GetNodes :: "HashRing \<Rightarrow> Node list" where
  "GetNodes h = map snd (nodes h)"

record NodeStats =
  stat_id :: string
  stat_host :: string
  stat_load :: int
  stat_max_load :: int

record RingStats =
  total_nodes :: nat
  total_keys :: int
  virtual_nodes :: int
  load_factor :: float64
  ring_size :: nat
  node_stats :: "NodeStats list"

definition Stats :: "HashRing \<Rightarrow> RingStats" where
  "Stats h =
     \<lparr>total_nodes = length (nodes h), total_keys = totalKeys h,
      virtual_nodes = virtualNodes h, load_factor = loadFactor h,
      ring_size = length (ring h),
      node_stats = map (\<lambda>n. \<lparr>stat_id = ID n, stat_host = Host n, stat_load = Load n,
                               stat_max_load = MaxLoad n\<rparr>) (GetNodes h)\<rparr>"


section \<open>Sequences of public operations\<close>

datatype op =
    OpAddNode Node
  | OpRemoveNode string
  | OpGetNode string
  | OpAssignKey string
  | OpReleaseKey string

text \<open>An operation that returns an error leaves the ring to the next one; a panic ends the run.\<close>

fun step :: "HashRing \<Rightarrow> op \<Rightarrow> HashRing option" where
  "step h (OpAddNode node) = map_option snd (AddNode h node)"
| "step h (OpRemoveNode nodeID) = map_option snd (RemoveNode h nodeID)"
| "step h (OpGetNode key) = map_option (\<lambda>r. h) (GetNode h key)"
| "step h (OpAssignKey key) = map_option snd (GetNodeWithBoundedLoad h key)"
| "step h (OpReleaseKey key) = Some (snd (RemoveKey h key))"

fun run :: "HashRing \<Rightarrow> op list \<Rightarrow> HashRing option" where
  "run h [] = Some h"
| "run h (x # xs) = (case step h x of None \<Rightarrow> None | Some h' \<Rightarrow> run h' xs)"

section \<open>Example rings\<close>

text \<open>
  One virtual node per node and the default load factor. The positions are
  \<open>hash ''a#0'' = 2693833302\<close> and \<open>hash ''b#0'' = 179391993\<close>; the keys
  \<open>''k1''\<close> and \<open>''k3''\<close> hash to 1790570987 and 793793225, both between the two.
\<close>

definition cfg1 :: Config where
  "cfg1 = \<lparr>VirtualNodes = 1, LoadFactor = F64 (5 / 4)\<rparr>"

definition node_a :: Node where
  "node_a = NewNode ''a'' ''10.0.0.1:8080''"

definition node_b :: Node where
  "node_b = NewNode ''b'' ''10.0.0.2:8080''"

definition mk_ring ::
  "(string \<times> Node) list \<Rightarrow> uint32 list \<Rightarrow> (uint32 \<times> string) list \<Rightarrow> int
     \<Rightarrow> (string \<times> string) list \<Rightarrow> HashRing"
where
  "mk_ring ns r rm tk ka =
     \<lparr>nodes = ns, ring = r, ringMap = rm, virtualNodes = 1, totalKeys = tk,
      loadFactor = F64 (5 / 4), keyAssignment = ka\<rparr>"

text \<open>The ring after \<^verbatim>\<open>AddNode(a)\<close>, then with \<open>''k1''\<close>, then with \<open>''k3''\<close> assigned.\<close>

definition ring_a0 :: HashRing where
  "ring_a0 = mk_ring [(''a'', node_a\<lparr>MaxLoad := 1\<rparr>)] [2693833302] [(2693833302, ''a'')] 0 []"

definition ring_a1 :: HashRing where
  "ring_a1 = mk_ring [(''a'', node_a\<lparr>Load := 1, MaxLoad := 1\<rparr>)] [2693833302]
               [(2693833302, ''a'')] 1 [(''k1'', ''a'')]"

definition ring_a2 :: HashRing where
  "ring_a2 = mk_ring [(''a'', node_a\<lparr>Load := 2, MaxLoad := 1\<rparr>)] [2693833302]
               [(2693833302, ''a'')] 2 [(''k1'', ''a''), (''k3'', ''a'')]"

text \<open>Then after \<^verbatim>\<open>AddNode(b)\<close>, and after \<^verbatim>\<open>RemoveNode(a)\<close>.\<close>

definition ring_ab :: HashRing where
  "ring_ab = mk_ring [(''a'', node_a\<lparr>Load := 2, MaxLoad := 1\<rparr>), (''b'', node_b\<lparr>MaxLoad := 1\<rparr>)]
               [179391993, 2693833302] [(2693833302, ''a''), (179391993, ''b'')] 2
               [(''k1'', ''a''), (''k3'', ''a'')]"

definition ring_b :: HashRing where
  "ring_b = mk_ring [(''b'', node_b\<lparr>Load := 2, MaxLoad := 1\<rparr>)] [179391993]
              [(179391993, ''b'')] 0 [(''k1'', ''b''), (''k3'', ''b'')]"

section \<open>Basic facts\<close>

lemma in_keys_iff: "k \<in> fst ` set al \<longleftrightarrow> map_of al k \<noteq> None"
  by (simp add: map_of_eq_None_iff)

lemma rebalanceKeys_no_keys: "keyAssignment h = [] \<Longrightarrow> \<exists>h'. rebalanceKeys h = Some h'"
  by (simp add: rebalanceKeys_def)

lemma keyAssignment_updateMaxLoads [simp]: "keyAssignment (updateMaxLoads h) = keyAssignment h"
  by (simp add: updateMaxLoads_def Let_def)

lemma keyAssignment_addVirtualNodes [simp]:
  "keyAssignment (addVirtualNodes nid is h) = keyAssignment h"
  by (induction "is" arbitrary: h) simp_all

lemma AddNode_exists:
  "map_of (nodes h) (ID node) \<noteq> None \<Longrightarrow>
   AddNode h node = Some (Some (NodeAlreadyExists (ID node)), h)"
  by (simp add: AddNode_def)

lemma AddNode_fresh:
  "map_of (nodes h) (ID node) = None \<Longrightarrow>
   AddNode h node = None \<or> (\<exists>h'. AddNode h node = Some (None, h'))"
  by (cases "AddNode h node") (auto simp: AddNode_def Let_def)

lemma RemoveNode_absent:
  "map_of (nodes h) nodeID = None \<Longrightarrow> RemoveNode h nodeID = Some (Some (NodeNotFound nodeID), h)"
  by (simp add: RemoveNode_def)

lemma RemoveNode_present:
  "map_of (nodes h) nodeID = Some node \<Longrightarrow>
   RemoveNode h nodeID = None \<or> (\<exists>h'. RemoveNode h nodeID = Some (None, h'))"
  by (cases "RemoveNode h nodeID") (auto simp: RemoveNode_def Let_def split: prod.splits)

lemma GetNode_empty: "nodes h = [] \<Longrightarrow> GetNode h key = Some (Inl NoNodesAvailable)"
  by (simp add: GetNode_def)

lemma GetNode_nonempty: "nodes h \<noteq> [] \<Longrightarrow> GetNode h key \<noteq> Some (Inl e)"
  by (auto simp: GetNode_def)

lemma GetNodeWithBoundedLoad_empty:
  "nodes h = [] \<Longrightarrow> GetNodeWithBoundedLoad h key = Some (Inl NoNodesAvailable, h)"
  by (simp add: GetNodeWithBoundedLoad_def)

lemma GetNodeWithBoundedLoad_no_error:
  "nodes h \<noteq> [] \<Longrightarrow>
   (case GetNodeWithBoundedLoad h key of
      None \<Rightarrow> True
    | Some (r, h') \<Rightarrow> (case r of Inl e \<Rightarrow> False | Inr n \<Rightarrow> True))"
  by (simp add: GetNodeWithBoundedLoad_def Let_def assignTo_def split: option.split walk.split)

lemma GetNodeWithBoundedLoad_nonempty:
  "nodes h \<noteq> [] \<Longrightarrow> GetNodeWithBoundedLoad h key \<noteq> Some (Inl e, h')"
  using GetNodeWithBoundedLoad_no_error [of h key] by (auto split: option.splits)

lemma round64_0: "round64 0 = F64 0"
  by (simp add: round64_def)

lemma round_even_int: "round_even (of_int m) = m"
  by (simp add: round_even_def)

lemma round64_exact:
  assumes "0 < x" and "ilog2 x = e" and "- 1022 \<le> e"
      and "x / pow2 (e - 52) = of_int m" and "x < pow2 1024"
  shows "round64 x = F64 x"
proof -
  have u: "pow2 (e - 52) \<noteq> 0" by (simp add: pow2_def)
  from assms(4) u have r: "of_int m * pow2 (e - 52) = x"
    by (metis nonzero_divide_eq_eq)
  have ax: "\<bar>x\<bar> = x" using assms(1) by simp
  have mx: "max (ilog2 x) (- 1022) = e" using assms(2,3) by simp
  have re: "round_even (x / pow2 (e - 52)) = m"
    unfolding assms(4) by (rule round_even_int)
  show ?thesis
    unfolding round64_def Let_def ax mx re r using assms(1,5) by simp
qed

lemma ilog2_values:
  "ilog2 1 = 0" "ilog2 2 = 1" "ilog2 (1 / 2) = - 1" "ilog2 (5 / 4) = 0" "ilog2 (7 / 4) = 0"
  by code_simp+

lemma round64_1: "round64 1 = F64 1"
  by (rule round64_exact [where e = 0 and m = "2 ^ 52"]) (simp_all add: ilog2_values pow2_def)

lemma round64_2: "round64 2 = F64 2"
  by (rule round64_exact [where e = 1 and m = "2 ^ 52"]) (simp_all add: ilog2_values pow2_def)

lemma round64_half: "round64 (1 / 2) = F64 (1 / 2)"
  by (rule round64_exact [where e = "- 1" and m = "2 ^ 52"]) (simp_all add: ilog2_values pow2_def)

lemma round64_5_4: "round64 (5 / 4) = F64 (5 / 4)"
  by (rule round64_exact [where e = 0 and m = "5 * 2 ^ 50"]) (simp_all add: ilog2_values pow2_def)

lemma round64_7_4: "round64 (7 / 4) = F64 (7 / 4)"
  by (rule round64_exact [where e = 0 and m = "7 * 2 ^ 50"]) (simp_all add: ilog2_values pow2_def)

lemma toward_zero_values: "toward_zero (1 / 2) = 0" "toward_zero (7 / 4) = 1"
  by code_simp+

text \<open>The loop of \<^verbatim>\<open>AddNode\<close> appends the positions and writes them to the map.\<close>

lemma addVirtualNodes_eq:
  "addVirtualNodes nid is h =
     h\<lparr>ring := ring h @ map (\<lambda>i. hash (virtualKey nid i)) is,
       ringMap := foldl (\<lambda>rm i. AList.update (hash (virtualKey nid i)) nid rm) (ringMap h) is\<rparr>"
  by (induction "is" arbitrary: h) simp_all

lemma updateMaxLoads_fields [simp]:
  "ring (updateMaxLoads h) = ring h"
  "ringMap (updateMaxLoads h) = ringMap h"
  "totalKeys (updateMaxLoads h) = totalKeys h"
  "loadFactor (updateMaxLoads h) = loadFactor h"
  "virtualNodes (updateMaxLoads h) = virtualNodes h"
  by (simp_all add: updateMaxLoads_def Let_def)

text \<open>The value that \<^verbatim>\<open>updateMaxLoads\<close> stores on a ring with no key.\<close>

lemma maxLoad_no_keys:
  "f64_to_int (f64_add (f64_mul (f64_div (f64_of_int 0) (f64_of_int 1)) lf) (F64 (1 / 2)))
     = (case lf of F64 b \<Rightarrow> 0 | _ \<Rightarrow> - (2 ^ 63))"
  by (cases lf)
     (simp_all add: f64_of_int_def round64_0 round64_1 round64_half inf_of_sgn_def
        toward_zero_values)

lemma rebalanceKeys_empty:
  "keyAssignment h = [] \<Longrightarrow>
   rebalanceKeys h = Some (h\<lparr>nodes := map resetLoad (nodes h), keyAssignment := []\<rparr>)"
  by (simp add: rebalanceKeys_def)

lemma updateMaxLoads_first:
  "totalKeys h = 0 \<Longrightarrow> nodes h = [(k, n)] \<Longrightarrow>
   updateMaxLoads h = h\<lparr>nodes := [(k, n\<lparr>MaxLoad := first_MaxLoad (loadFactor h)\<rparr>)]\<rparr>"
  by (cases "loadFactor h")
     (simp_all add: updateMaxLoads_def Let_def maxLoad_no_keys [simplified] setMaxLoad_def
        first_MaxLoad_def)

lemma AddNode_first:
  assumes "nodes h = []" "keyAssignment h = []" "totalKeys h = 0"
  shows "AddNode h n = Some (None,
     h\<lparr>nodes := [(ID n, n\<lparr>MaxLoad := first_MaxLoad (loadFactor h), Load := 0\<rparr>)],
       ring := sort (ring h @ map (\<lambda>i. hash (virtualKey (ID n) i)) [0..<nat (virtualNodes h)]),
       ringMap := foldl (\<lambda>rm i. AList.update (hash (virtualKey (ID n) i)) (ID n) rm)
                    (ringMap h) [0..<nat (virtualNodes h)]\<rparr>)"
    (is "_ = Some (None, ?R)")
proof -
  let ?h1 = "h\<lparr>nodes := AList.update (ID n) n (nodes h)\<rparr>"
  let ?h2 = "addVirtualNodes (ID n) [0..<nat (virtualNodes ?h1)] ?h1"
  let ?h3 = "?h2\<lparr>ring := sort (ring ?h2)\<rparr>"
  have n3: "nodes ?h3 = [(ID n, n)]" and t3: "totalKeys ?h3 = 0"
    using assms by (simp_all add: addVirtualNodes_eq)
  have u: "updateMaxLoads ?h3
      = ?h3\<lparr>nodes := [(ID n, n\<lparr>MaxLoad := first_MaxLoad (loadFactor ?h3)\<rparr>)]\<rparr>"
    by (rule updateMaxLoads_first [OF t3 n3])
  have k: "keyAssignment (updateMaxLoads ?h3) = []"
    using assms by (simp add: addVirtualNodes_eq)
  have r: "(updateMaxLoads ?h3)\<lparr>nodes := map resetLoad (nodes (updateMaxLoads ?h3)),
       keyAssignment := []\<rparr> = ?R"
    unfolding u using assms
    by (intro HashRing.equality) (simp_all add: addVirtualNodes_eq resetLoad_def ResetLoad_def)
  have "AddNode h n = map_option (Pair None) (rebalanceKeys (updateMaxLoads ?h3))"
    using assms by (simp add: AddNode_def Let_def)
  also have "\<dots> = Some (None, ?R)"
    unfolding rebalanceKeys_empty [OF k] r by simp
  finally show ?thesis .
qed

lemmas example_defs =
  mk_ring_def ring_a0_def ring_a1_def ring_a2_def ring_ab_def ring_b_def
  node_a_def node_b_def NewNode_def cfg1_def

section \<open>The constructor\<close>

text \<open>
  C10, as amended. \<^verbatim>\<open>NewHashRing\<close> has no failure: it is a total function to rings.
  A virtual-node count that is not positive is replaced by 150 and a load factor that
  compares \<^verbatim>\<open><= 0\<close> by 1.25; other values are kept. So the virtual-node count of every
  new ring is positive, and its load factor is positive unless the configured one is NaN,
  which is kept, since NaN is not \<^verbatim>\<open><= 0\<close>. The new ring is empty, and adding a
  first node to it succeeds: the node is stored with load 0 and the maximum load of a ring
  without keys, on a sorted ring of its virtual positions.
\<close>

theorem NewHashRing_defaults:
  "virtualNodes (NewHashRing c) = (if VirtualNodes c \<le> 0 then 150 else VirtualNodes c)
   \<and> loadFactor (NewHashRing c)
       = (if f64_le (LoadFactor c) (F64 0) then F64 (5 / 4) else LoadFactor c)
   \<and> 0 < virtualNodes (NewHashRing c)
   \<and> (LoadFactor c \<noteq> NaN \<longrightarrow> f64_lt (F64 0) (loadFactor (NewHashRing c)))
   \<and> (LoadFactor c = NaN \<longrightarrow> loadFactor (NewHashRing c) = NaN)
   \<and> nodes (NewHashRing c) = [] \<and> ring (NewHashRing c) = [] \<and> ringMap (NewHashRing c) = []
   \<and> keyAssignment (NewHashRing c) = [] \<and> totalKeys (NewHashRing c) = 0
   \<and> (\<exists>h'. AddNode (NewHashRing c) n = Some (None, h')
         \<and> nodes h' = [(ID n, n\<lparr>MaxLoad := first_MaxLoad (loadFactor (NewHashRing c)), Load := 0\<rparr>)]
         \<and> ring h' = sort (map (\<lambda>i. hash (virtualKey (ID n) i)) [0..<nat (virtualNodes (NewHashRing c))])
         \<and> keyAssignment h' = [] \<and> totalKeys h' = 0
         \<and> virtualNodes h' = virtualNodes (NewHashRing c)
         \<and> loadFactor h' = loadFactor (NewHashRing c))"
proof -
  have e: "nodes (NewHashRing c) = []" "keyAssignment (NewHashRing c) = []"
    "totalKeys (NewHashRing c) = 0" "ring (NewHashRing c) = []"
    by (simp_all add: NewHashRing_def Let_def)
  have lf: "loadFactor (NewHashRing c)
       = (if f64_le (LoadFactor c) (F64 0) then F64 (5 / 4) else LoadFactor c)"
    by (simp add: NewHashRing_def Let_def)
  have pos: "LoadFactor c \<noteq> NaN \<longrightarrow> f64_lt (F64 0) (loadFactor (NewHashRing c))"
    unfolding lf by (cases "LoadFactor c") auto
  have nan: "LoadFactor c = NaN \<longrightarrow> loadFactor (NewHashRing c) = NaN"
    unfolding lf by simp
  have add: "\<exists>h'. AddNode (NewHashRing c) n = Some (None, h')
         \<and> nodes h' = [(ID n, n\<lparr>MaxLoad := first_MaxLoad (loadFactor (NewHashRing c)), Load := 0\<rparr>)]
         \<and> ring h' = sort (map (\<lambda>i. hash (virtualKey (ID n) i)) [0..<nat (virtualNodes (NewHashRing c))])
         \<and> keyAssignment h' = [] \<and> totalKeys h' = 0
         \<and> virtualNodes h' = virtualNodes (NewHashRing c)
         \<and> loadFactor h' = loadFactor (NewHashRing c)"
    unfolding AddNode_first [OF e(1) e(2) e(3)] by (simp add: e)
  have vn: "virtualNodes (NewHashRing c) = (if VirtualNodes c \<le> 0 then 150 else VirtualNodes c)"
    by (simp add: NewHashRing_def Let_def)
  have vpos: "0 < virtualNodes (NewHashRing c)"
    unfolding vn by simp
  have rm: "ringMap (NewHashRing c) = []"
    by (simp add: NewHashRing_def Let_def)
  from vn lf vpos pos nan e rm add show ?thesis by blast
qed

theorem NewHashRing_defaults_witness:
  "virtualNodes (NewHashRing \<lparr>VirtualNodes = 0, LoadFactor = F64 (- 1)\<rparr>) = 150
   \<and> loadFactor (NewHashRing \<lparr>VirtualNodes = 0, LoadFactor = F64 (- 1)\<rparr>) = F64 (5 / 4)
   \<and> virtualNodes (NewHashRing \<lparr>VirtualNodes = 3, LoadFactor = F64 2\<rparr>) = 3
   \<and> loadFactor (NewHashRing \<lparr>VirtualNodes = 3, LoadFactor = F64 2\<rparr>) = F64 2
   \<and> f64_lt (F64 0) (loadFactor (NewHashRing \<lparr>VirtualNodes = 3, LoadFactor = F64 2\<rparr>))
   \<and> loadFactor (NewHashRing \<lparr>VirtualNodes = 3, LoadFactor = NaN\<rparr>) = NaN"
  using NewHashRing_defaults [of "\<lparr>VirtualNodes = 0, LoadFactor = F64 (- 1)\<rparr>"]
        NewHashRing_defaults [of "\<lparr>VirtualNodes = 3, LoadFactor = F64 2\<rparr>"]
        NewHashRing_defaults [of "\<lparr>VirtualNodes = 3, LoadFactor = NaN\<rparr>"]
  by simp

text \<open>
  C10 as stated fails: a NaN load factor passes the guard \<^verbatim>\<open>config.LoadFactor <= 0\<close>
  and is stored, and NaN is not greater than zero.
\<close>

theorem NewHashRing_NaN_counterexample:
  "loadFactor (NewHashRing \<lparr>VirtualNodes = 150, LoadFactor = NaN\<rparr>) = NaN
   \<and> \<not> f64_lt (F64 0) (loadFactor (NewHashRing \<lparr>VirtualNodes = 150, LoadFactor = NaN\<rparr>))"
  by (simp add: NewHashRing_def Let_def)

section \<open>Sticky assignment\<close>

text \<open>
  C5. A key whose stored assignment names a node that is still in \<^verbatim>\<open>nodes\<close> gets that
  node back from \<^verbatim>\<open>GetNodeWithBoundedLoad\<close>, and the ring is returned as it was: no
  load, no total and no entry of the assignment table changes.
\<close>

theorem AssignKey_sticky:
  assumes "map_of (keyAssignment h) key = Some nodeID"
      and "map_of (nodes h) nodeID = Some node"
  shows "GetNodeWithBoundedLoad h key = Some (Inr node, h)"
proof -
  from assms(2) have "nodes h \<noteq> []" by auto
  with assms show ?thesis by (simp add: GetNodeWithBoundedLoad_def Let_def)
qed

theorem AssignKey_sticky_witness:
  "GetNodeWithBoundedLoad ring_a1 ''k1'' = Some (Inr (node_a\<lparr>Load := 1, MaxLoad := 1\<rparr>), ring_a1)"
proof -
  have k: "map_of (keyAssignment ring_a1) ''k1'' = Some ''a''"
    by (simp add: example_defs)
  have n: "map_of (nodes ring_a1) ''a'' = Some (node_a\<lparr>Load := 1, MaxLoad := 1\<rparr>)"
    by (simp add: example_defs)
  show ?thesis by (rule AssignKey_sticky [OF k n])
qed

section \<open>Error conditions\<close>

text \<open>
  C6. \<^verbatim>\<open>AddNode\<close> returns the already-exists error exactly when the identifier is a key
  of \<^verbatim>\<open>nodes\<close>, \<^verbatim>\<open>RemoveNode\<close> the not-found error exactly when it is not, and
  \<^verbatim>\<open>GetNode\<close> and \<^verbatim>\<open>GetNodeWithBoundedLoad\<close> the no-nodes error exactly when
  \<^verbatim>\<open>nodes\<close> is empty. These are the only errors the four operations return, and an
  operation that returns an error returns the ring unchanged.
\<close>

theorem error_conditions_exact:
  "((\<exists>h'. AddNode h node = Some (Some (NodeAlreadyExists (ID node)), h'))
       \<longleftrightarrow> ID node \<in> fst ` set (nodes h))
   \<and> (\<forall>e h'. AddNode h node = Some (Some e, h') \<longrightarrow> e = NodeAlreadyExists (ID node) \<and> h' = h)
   \<and> ((\<exists>h'. RemoveNode h nodeID = Some (Some (NodeNotFound nodeID), h'))
       \<longleftrightarrow> nodeID \<notin> fst ` set (nodes h))
   \<and> (\<forall>e h'. RemoveNode h nodeID = Some (Some e, h') \<longrightarrow> e = NodeNotFound nodeID \<and> h' = h)
   \<and> (GetNode h key = Some (Inl NoNodesAvailable) \<longleftrightarrow> nodes h = [])
   \<and> (\<forall>e. GetNode h key = Some (Inl e) \<longrightarrow> e = NoNodesAvailable)
   \<and> ((\<exists>h'. GetNodeWithBoundedLoad h key = Some (Inl NoNodesAvailable, h')) \<longleftrightarrow> nodes h = [])
   \<and> (\<forall>e h'. GetNodeWithBoundedLoad h key = Some (Inl e, h') \<longrightarrow> e = NoNodesAvailable \<and> h' = h)"
proof -
  have A: "(\<exists>h'. AddNode h node = Some (Some (NodeAlreadyExists (ID node)), h'))
       \<longleftrightarrow> ID node \<in> fst ` set (nodes h)"
    unfolding in_keys_iff using AddNode_exists [of h node] AddNode_fresh [of h node]
    by (cases "map_of (nodes h) (ID node)") auto
  have A': "\<forall>e h'. AddNode h node = Some (Some e, h') \<longrightarrow> e = NodeAlreadyExists (ID node) \<and> h' = h"
    using AddNode_exists [of h node] AddNode_fresh [of h node]
    by (cases "map_of (nodes h) (ID node)") auto
  have R: "(\<exists>h'. RemoveNode h nodeID = Some (Some (NodeNotFound nodeID), h'))
       \<longleftrightarrow> nodeID \<notin> fst ` set (nodes h)"
    unfolding in_keys_iff using RemoveNode_absent [of h nodeID] RemoveNode_present [of h nodeID]
    by (cases "map_of (nodes h) nodeID") auto
  have R': "\<forall>e h'. RemoveNode h nodeID = Some (Some e, h') \<longrightarrow> e = NodeNotFound nodeID \<and> h' = h"
    using RemoveNode_absent [of h nodeID] RemoveNode_present [of h nodeID]
    by (cases "map_of (nodes h) nodeID") auto
  have G: "GetNode h key = Some (Inl NoNodesAvailable) \<longleftrightarrow> nodes h = []"
    using GetNode_empty [of h key] GetNode_nonempty [of h key] by auto
  have G': "\<forall>e. GetNode h key = Some (Inl e) \<longrightarrow> e = NoNodesAvailable"
    using GetNode_empty [of h key] GetNode_nonempty [of h key] by (cases "nodes h = []") auto
  have B: "(\<exists>h'. GetNodeWithBoundedLoad h key = Some (Inl NoNodesAvailable, h'))
       \<longleftrightarrow> nodes h = []"
    using GetNodeWithBoundedLoad_empty [of h key] GetNodeWithBoundedLoad_nonempty [of h key]
    by auto
  have B': "\<forall>e h'. GetNodeWithBoundedLoad h key = Some (Inl e, h')
       \<longrightarrow> e = NoNodesAvailable \<and> h' = h"
    using GetNodeWithBoundedLoad_empty [of h key] GetNodeWithBoundedLoad_nonempty [of h key]
    by (cases "nodes h = []") auto
  show ?thesis
    apply (intro conjI)
    using A apply blast
    using A' apply blast
    using R apply blast
    using R' apply blast
    using G apply blast
    using G' apply blast
    using B apply blast
    using B' apply blast
    done
qed

theorem error_conditions_exact_witness:
  "AddNode ring_a1 node_a = Some (Some (NodeAlreadyExists (ID node_a)), ring_a1)
   \<and> RemoveNode ring_a1 ''zz'' = Some (Some (NodeNotFound ''zz''), ring_a1)
   \<and> GetNode (NewHashRing cfg1) ''k1'' = Some (Inl NoNodesAvailable)
   \<and> GetNodeWithBoundedLoad (NewHashRing cfg1) ''k1'' = Some (Inl NoNodesAvailable, NewHashRing cfg1)
   \<and> GetNode ring_a1 ''k1'' \<noteq> Some (Inl NoNodesAvailable)"
proof -
  note T = error_conditions_exact [of ring_a1 node_a "''zz''" "''k1''"]
  note U = error_conditions_exact [of "NewHashRing cfg1" node_a "''zz''" "''k1''"]
  have a: "ID node_a \<in> fst ` set (nodes ring_a1)"
    by (simp add: example_defs)
  have z: "''zz'' \<notin> fst ` set (nodes ring_a1)"
    by (simp add: example_defs)
  have e: "nodes (NewHashRing cfg1) = []"
    by (simp add: NewHashRing_def Let_def)
  have f: "nodes ring_a1 \<noteq> []"
    by (simp add: example_defs)
  from T a obtain h1 where "AddNode ring_a1 node_a = Some (Some (NodeAlreadyExists (ID node_a)), h1)"
    by blast
  with T have 1: "AddNode ring_a1 node_a = Some (Some (NodeAlreadyExists (ID node_a)), ring_a1)"
    by blast
  from T z obtain h2 where "RemoveNode ring_a1 ''zz'' = Some (Some (NodeNotFound ''zz''), h2)"
    by blast
  with T have 2: "RemoveNode ring_a1 ''zz'' = Some (Some (NodeNotFound ''zz''), ring_a1)"
    by blast
  from T f have 3: "GetNode ring_a1 ''k1'' \<noteq> Some (Inl NoNodesAvailable)"
    by blast
  from U e have 4: "GetNode (NewHashRing cfg1) ''k1'' = Some (Inl NoNodesAvailable)"
    by blast
  from U e obtain h3 where
    "GetNodeWithBoundedLoad (NewHashRing cfg1) ''k1'' = Some (Inl NoNodesAvailable, h3)"
    by blast
  with U have 5: "GetNodeWithBoundedLoad (NewHashRing cfg1) ''k1''
             = Some (Inl NoNodesAvailable, NewHashRing cfg1)"
    by blast
  from 1 2 3 4 5 show ?thesis by blast
qed

section \<open>Releasing a key\<close>

text \<open>
  C8. \<^verbatim>\<open>RemoveKey\<close> returns the key-not-found error exactly when the key has no entry in
  the assignment table, and then changes nothing. Otherwise it returns no error, the
  entry is removed, the total is one less, and the load of the owning node, when that node
  is in \<^verbatim>\<open>nodes\<close>, is one less if it was positive and unchanged if not, so a load that
  is not negative stays so.
\<close>

theorem ReleaseKey_spec:
  "(fst (RemoveKey h key) = Some (KeyNotFound key) \<longleftrightarrow> map_of (keyAssignment h) key = None)
   \<and> (fst (RemoveKey h key) \<noteq> None \<longrightarrow> RemoveKey h key = (Some (KeyNotFound key), h))
   \<and> (\<forall>nodeID. map_of (keyAssignment h) key = Some nodeID \<longrightarrow>
        fst (RemoveKey h key) = None
        \<and> map_of (keyAssignment (snd (RemoveKey h key))) = (map_of (keyAssignment h))(key := None)
        \<and> totalKeys (snd (RemoveKey h key)) = totalKeys h - 1
        \<and> map_of (nodes (snd (RemoveKey h key))) =
            (case map_of (nodes h) nodeID of
               None \<Rightarrow> map_of (nodes h)
             | Some node \<Rightarrow> (map_of (nodes h))(nodeID \<mapsto>
                 node\<lparr>Load := (if Load node > 0 then Load node - 1 else Load node)\<rparr>))
        \<and> (\<forall>node node'. map_of (nodes h) nodeID = Some node
              \<and> map_of (nodes (snd (RemoveKey h key))) nodeID = Some node' \<and> 0 \<le> Load node
              \<longrightarrow> 0 \<le> Load node')
        \<and> ring (snd (RemoveKey h key)) = ring h \<and> ringMap (snd (RemoveKey h key)) = ringMap h)"
  by (auto simp: RemoveKey_def Let_def DecrementLoad_def update_conv' delete_conv'
           split: option.splits)

theorem ReleaseKey_spec_witness:
  "fst (RemoveKey ring_a1 ''k1'') = None
   \<and> map_of (keyAssignment (snd (RemoveKey ring_a1 ''k1''))) ''k1'' = None
   \<and> totalKeys (snd (RemoveKey ring_a1 ''k1'')) = 0
   \<and> map_option Load (map_of (nodes (snd (RemoveKey ring_a1 ''k1''))) ''a'') = Some 0
   \<and> RemoveKey ring_a1 ''k3'' = (Some (KeyNotFound ''k3''), ring_a1)"
proof -
  have k: "map_of (keyAssignment ring_a1) ''k1'' = Some ''a''"
    and n: "map_of (nodes ring_a1) ''a'' = Some (node_a\<lparr>Load := 1, MaxLoad := 1\<rparr>)"
    and t: "totalKeys ring_a1 = 1"
    and z: "map_of (keyAssignment ring_a1) ''k3'' = None"
    by (simp_all add: example_defs)
  from ReleaseKey_spec [of ring_a1 "''k1''"] k n t
  have 1: "fst (RemoveKey ring_a1 ''k1'') = None
     \<and> map_of (keyAssignment (snd (RemoveKey ring_a1 ''k1''))) ''k1'' = None
     \<and> totalKeys (snd (RemoveKey ring_a1 ''k1'')) = 0
     \<and> map_option Load (map_of (nodes (snd (RemoveKey ring_a1 ''k1''))) ''a'') = Some 0"
    by simp
  from ReleaseKey_spec [of ring_a1 "''k3''"] z
  have 2: "RemoveKey ring_a1 ''k3'' = (Some (KeyNotFound ''k3''), ring_a1)"
    by (metis option.distinct(1))
  from 1 2 show ?thesis by simp
qed

section \<open>Lookup\<close>

text \<open>The binary search returns the least index at which a monotone test holds.\<close>

lemma sortSearch_spec:
  "(\<forall>a b. a \<le> b \<and> b < n \<and> f a \<longrightarrow> f b) \<Longrightarrow> i \<le> j \<Longrightarrow> j \<le> n \<Longrightarrow>
   (\<forall>k<i. \<not> f k) \<Longrightarrow> (\<forall>k. j \<le> k \<and> k < n \<longrightarrow> f k) \<Longrightarrow>
     i \<le> sortSearch f i j \<and> sortSearch f i j \<le> j
     \<and> (\<forall>k < sortSearch f i j. \<not> f k) \<and> (\<forall>k. sortSearch f i j \<le> k \<and> k < n \<longrightarrow> f k)"
proof (induction f i j rule: sortSearch.induct)
  case (1 f i j)
  note mono = "1.prems"(1)
  show ?case
  proof (cases "i < j")
    case False
    then have "sortSearch f i j = i" by (subst sortSearch.simps) simp
    with False "1.prems" show ?thesis by simp
  next
    case True
    let ?h = "(i + j) div 2"
    from True have hb: "i \<le> ?h" "?h < j" by simp_all
    from hb "1.prems"(3) have hn: "?h < n" by simp
    show ?thesis
    proof (cases "f ?h")
      case False
      have lo: "\<forall>k < ?h + 1. \<not> f k"
      proof (intro allI impI)
        fix k assume "k < ?h + 1"
        then have kh: "k \<le> ?h" by simp
        show "\<not> f k"
        proof
          assume "f k"
          with mono kh hn have "f ?h" by blast
          with False show False by contradiction
        qed
      qed
      have "?h + 1 \<le> sortSearch f (?h + 1) j \<and> sortSearch f (?h + 1) j \<le> j
         \<and> (\<forall>k < sortSearch f (?h + 1) j. \<not> f k)
         \<and> (\<forall>k. sortSearch f (?h + 1) j \<le> k \<and> k < n \<longrightarrow> f k)"
        using "1.IH"(1) [OF True refl False mono _ "1.prems"(3) lo "1.prems"(5)] hb by simp
      moreover have "sortSearch f i j = sortSearch f (?h + 1) j"
        using True False by (subst sortSearch.simps) (simp add: Let_def)
      ultimately show ?thesis using hb by simp
    next
      case fh: True
      have hi: "\<forall>k. ?h \<le> k \<and> k < n \<longrightarrow> f k"
        using mono fh by blast
      have hj: "?h \<le> n" using hn by simp
      have "i \<le> sortSearch f i ?h \<and> sortSearch f i ?h \<le> ?h
         \<and> (\<forall>k < sortSearch f i ?h. \<not> f k)
         \<and> (\<forall>k. sortSearch f i ?h \<le> k \<and> k < n \<longrightarrow> f k)"
        using "1.IH"(2) [OF True refl _ mono hb(1) hj "1.prems"(4) hi] fh by simp
      moreover have "sortSearch f i j = sortSearch f i ?h"
        using True fh by (subst sortSearch.simps) (simp add: Let_def)
      ultimately show ?thesis using hb by simp
    qed
  qed
qed

lemma search_less: "ring h \<noteq> [] \<Longrightarrow> search h p < length (ring h)"
  by (simp add: search_def Let_def)

lemma search_sorted:
  fixes h :: HashRing and p :: uint32
  assumes "sorted (ring h)"
  defines "s \<equiv> sortSearch (\<lambda>i. p \<le> ring h ! i) 0 (length (ring h))"
  shows "\<forall>k < s. ring h ! k < p"
    and "\<forall>k. s \<le> k \<and> k < length (ring h) \<longrightarrow> p \<le> ring h ! k"
    and "s \<le> length (ring h)"
proof -
  have mono: "\<forall>a b. a \<le> b \<and> b < length (ring h) \<and> p \<le> ring h ! a \<longrightarrow> p \<le> ring h ! b"
    using assms(1) by (meson order_trans sorted_nth_mono)
  have "0 \<le> s \<and> s \<le> length (ring h) \<and> (\<forall>k < s. \<not> p \<le> ring h ! k)
     \<and> (\<forall>k. s \<le> k \<and> k < length (ring h) \<longrightarrow> p \<le> ring h ! k)"
    unfolding s_def
    by (rule sortSearch_spec [of "length (ring h)" "\<lambda>i. p \<le> ring h ! i" 0 "length (ring h)",
          OF mono]) auto
  then show "\<forall>k < s. ring h ! k < p"
    and "\<forall>k. s \<le> k \<and> k < length (ring h) \<longrightarrow> p \<le> ring h ! k"
    and "s \<le> length (ring h)"
    by (simp_all add: not_le)
qed

text \<open>
  C7. On a sorted, non-empty ring \<^verbatim>\<open>search\<close> returns an index of the ring. When some
  entry is at least the position, it is the index of the first such entry: the entry
  there is at least the position and every entry before it is smaller. When every entry
  is smaller than the position, it is index 0. \<^verbatim>\<open>getNodeForHash\<close> returns the node
  stored under the identifier that \<^verbatim>\<open>ringMap\<close> gives for the entry at that index.
\<close>

theorem Lookup_first_clockwise:
  assumes "sorted (ring h)" and "ring h \<noteq> []"
  shows "search h p < length (ring h)
     \<and> ((\<exists>x \<in> set (ring h). p \<le> x) \<longrightarrow>
          p \<le> ring h ! search h p \<and> (\<forall>j < search h p. ring h ! j < p))
     \<and> ((\<forall>x \<in> set (ring h). x < p) \<longrightarrow> search h p = 0)
     \<and> getNodeForHash h p
          = Some (map_of (nodes h) (lookupID (ringMap h) (ring h ! search h p)))"
proof -
  define s where "s = sortSearch (\<lambda>i. p \<le> ring h ! i) 0 (length (ring h))"
  have lo: "\<forall>k < s. ring h ! k < p"
    and hi: "\<forall>k. s \<le> k \<and> k < length (ring h) \<longrightarrow> p \<le> ring h ! k"
    unfolding s_def by (rule search_sorted [OF assms(1)])+
  have sr: "search h p = (if length (ring h) \<le> s then 0 else s)"
    by (simp add: search_def Let_def s_def)
  have 1: "search h p < length (ring h)" by (rule search_less [OF assms(2)])
  have 2: "p \<le> ring h ! search h p \<and> (\<forall>j < search h p. ring h ! j < p)"
    if "\<exists>x \<in> set (ring h). p \<le> x"
  proof -
    from that obtain i where i: "i < length (ring h)" "p \<le> ring h ! i"
      by (auto simp: in_set_conv_nth)
    have "s < length (ring h)"
    proof (rule ccontr)
      assume "\<not> s < length (ring h)"
      with i(1) have "i < s" by simp
      with lo have "ring h ! i < p" by simp
      with i(2) show False by simp
    qed
    with sr have e: "search h p = s" by simp
    from hi \<open>s < length (ring h)\<close> have "p \<le> ring h ! s" by simp
    with lo show ?thesis unfolding e by simp
  qed
  have 3: "search h p = 0" if "\<forall>x \<in> set (ring h). x < p"
  proof -
    have "\<not> s < length (ring h)"
    proof
      assume l: "s < length (ring h)"
      with hi have "p \<le> ring h ! s" by simp
      moreover from l that have "ring h ! s < p" by simp
      ultimately show False by simp
    qed
    with sr show ?thesis by simp
  qed
  have 4: "getNodeForHash h p
          = Some (map_of (nodes h) (lookupID (ringMap h) (ring h ! search h p)))"
    using 1 by (simp add: getNodeForHash_def Let_def)
  from 1 2 3 4 show ?thesis by blast
qed

theorem Lookup_first_clockwise_witness:
  "search ring_ab 793793225 < length (ring ring_ab)
   \<and> 793793225 \<le> ring ring_ab ! search ring_ab 793793225
   \<and> (\<forall>j < search ring_ab 793793225. ring ring_ab ! j < 793793225)
   \<and> search ring_ab 3000000000 = 0
   \<and> getNodeForHash ring_ab 793793225
        = Some (map_of (nodes ring_ab)
            (lookupID (ringMap ring_ab) (ring ring_ab ! search ring_ab 793793225)))"
proof -
  have s: "sorted (ring ring_ab)" and n: "ring ring_ab \<noteq> []"
    by (simp_all add: example_defs)
  have e: "\<exists>x \<in> set (ring ring_ab). 793793225 \<le> x"
    by (simp add: example_defs)
  have a: "\<forall>x \<in> set (ring ring_ab). x < 3000000000"
    by (simp add: example_defs)
  note A = Lookup_first_clockwise [OF s n, of 793793225]
  note B = Lookup_first_clockwise [OF s n, of 3000000000]
  from A B e a show ?thesis by blast
qed

lemma search_examples:
  "search ring_ab 793793225 = 1" "search ring_ab 100 = 0" "search ring_ab 179391993 = 0"
  "search ring_ab 2693833302 = 1" "search ring_ab 2693833303 = 0"
  by code_simp+

section \<open>The fallback of the bounded-load walk\<close>

lemma int64_id: "- (2 ^ 63) \<le> x \<Longrightarrow> x < 2 ^ 63 \<Longrightarrow> int64 x = x"
  by (simp add: int64_def)

lemma walkRing_all_full:
  assumes "ring h \<noteq> []"
      and "\<forall>idx < length (ring h). \<exists>n. map_of (nodes h) (lookupID (ringMap h) (ring h ! idx)) = Some n
              \<and> \<not> CanAcceptKey n"
  shows "walkRing h startIdx is = WalkNone"
proof (induction "is")
  case Nil
  show ?case by simp
next
  case (Cons i "is")
  from assms(1) have "(startIdx + i) mod length (ring h) < length (ring h)" by simp
  with assms(2) obtain n where
    "map_of (nodes h) (lookupID (ringMap h) (ring h ! ((startIdx + i) mod length (ring h)))) = Some n"
    "\<not> CanAcceptKey n" by blast
  with Cons show ?case by (simp add: Let_def)
qed

text \<open>
  C4. Let the ring have a node and a position, let the key have no stored assignment to a
  node of the ring, and let the walk find no accepting node: every entry of the ring
  belongs to a node of the ring for which \<^verbatim>\<open>CanAcceptKey\<close> is false. Then
  \<^verbatim>\<open>GetNodeWithBoundedLoad\<close> returns, without error, the node that owns the entry at
  the index \<^verbatim>\<open>search\<close> gives for the hash of the key, with its load one higher; the
  ring records the key for that node and counts one key more. That node is at its cap, so
  its new load is above \<^verbatim>\<open>MaxLoad\<close>. (The load is taken below the largest
  \<^verbatim>\<open>int\<close>, where the increment does not wrap.)
\<close>

theorem AssignKey_fallback:
  assumes nonempty: "nodes h \<noteq> []"
      and fresh: "\<forall>nodeID. map_of (keyAssignment h) key = Some nodeID \<longrightarrow> map_of (nodes h) nodeID = None"
      and ring: "ring h \<noteq> []"
      and full: "\<forall>idx < length (ring h).
                   \<exists>n. map_of (nodes h) (lookupID (ringMap h) (ring h ! idx)) = Some n
                       \<and> \<not> CanAcceptKey n"
      and owner: "map_of (nodes h) (lookupID (ringMap h) (ring h ! search h (hash key))) = Some node"
      and range: "- (2 ^ 63) \<le> Load node" "Load node < 2 ^ 63 - 1"
  shows "GetNodeWithBoundedLoad h key =
           Some (Inr (node\<lparr>Load := Load node + 1\<rparr>),
                 h\<lparr>nodes := AList.update (lookupID (ringMap h) (ring h ! search h (hash key)))
                               (node\<lparr>Load := Load node + 1\<rparr>) (nodes h),
                   keyAssignment := AList.update key
                               (lookupID (ringMap h) (ring h ! search h (hash key)))
                               (AList.delete key (keyAssignment h)),
                   totalKeys := totalKeys h + 1\<rparr>)
         \<and> MaxLoad node \<noteq> 0 \<and> MaxLoad node \<le> Load node \<and> MaxLoad node < Load node + 1"
proof -
  let ?h1 = "h\<lparr>keyAssignment := AList.delete key (keyAssignment h)\<rparr>"
  let ?s = "search h (hash key)"
  have s: "?s < length (ring h)" by (rule search_less [OF ring])
  have ex: "(case map_of (keyAssignment h) key of None \<Rightarrow> None
             | Some existingNodeID \<Rightarrow> map_of (nodes h) existingNodeID) = None"
    using fresh by (cases "map_of (keyAssignment h) key") simp_all
  have w: "walkRing ?h1 ?s [0..<length (ring ?h1)] = WalkNone"
    by (rule walkRing_all_full) (use ring full in simp_all)
  have inc: "IncrementLoad node = node\<lparr>Load := Load node + 1\<rparr>"
    using range by (simp add: IncrementLoad_def int64_id)
  from full s owner have nacc: "\<not> CanAcceptKey node" by fastforce
  then have cap: "MaxLoad node \<noteq> 0 \<and> MaxLoad node \<le> Load node"
    by (simp add: CanAcceptKey_def split: if_splits)
  have "GetNodeWithBoundedLoad h key =
           Some (Inr (node\<lparr>Load := Load node + 1\<rparr>),
                 h\<lparr>nodes := AList.update (lookupID (ringMap h) (ring h ! ?s))
                               (node\<lparr>Load := Load node + 1\<rparr>) (nodes h),
                   keyAssignment := AList.update key (lookupID (ringMap h) (ring h ! ?s))
                               (AList.delete key (keyAssignment h)),
                   totalKeys := totalKeys h + 1\<rparr>)"
    using nonempty s owner w
    by (simp add: GetNodeWithBoundedLoad_def Let_def ex search_def assignTo_def inc)
  with cap show ?thesis by simp
qed

theorem AssignKey_fallback_witness:
  "GetNodeWithBoundedLoad ring_a1 ''k3'' = Some (Inr (node_a\<lparr>Load := 2, MaxLoad := 1\<rparr>), ring_a2)"
proof -
  have s: "search ring_a1 (hash ''k3'') = 0"
    using search_less [of ring_a1 "hash ''k3''"] by (simp add: example_defs)
  have 1: "nodes ring_a1 \<noteq> []" and 3: "ring ring_a1 \<noteq> []"
    by (simp_all add: example_defs)
  have 2: "\<forall>nodeID. map_of (keyAssignment ring_a1) ''k3'' = Some nodeID
             \<longrightarrow> map_of (nodes ring_a1) nodeID = None"
    by (simp add: example_defs)
  have 4: "\<forall>idx < length (ring ring_a1).
       \<exists>n. map_of (nodes ring_a1) (lookupID (ringMap ring_a1) (ring ring_a1 ! idx)) = Some n
           \<and> \<not> CanAcceptKey n"
    by (simp add: example_defs lookupID_def CanAcceptKey_def)
  have 5: "map_of (nodes ring_a1) (lookupID (ringMap ring_a1) (ring ring_a1 ! search ring_a1 (hash ''k3'')))
       = Some (node_a\<lparr>Load := 1, MaxLoad := 1\<rparr>)"
    unfolding s by (simp add: example_defs lookupID_def)
  have 6: "- (2 ^ 63) \<le> Load (node_a\<lparr>Load := 1, MaxLoad := 1\<rparr>)"
    "Load (node_a\<lparr>Load := 1, MaxLoad := 1\<rparr>) < 2 ^ 63 - 1"
    by simp_all
  from AssignKey_fallback [OF 1 2 3 4 5 6]
  show ?thesis unfolding s by (simp add: example_defs lookupID_def)
qed

end
